theory Spec2Isabelle
  imports Complex_Main "HOL-Library.AList"
begin

section \<open>JavaScript values\<close>

text \<open>
  The client keeps everything it receives as plain JavaScript values produced by
  \<^verbatim>\<open>JSON.parse\<close>. An object is the list of its own properties in insertion order.
  A number is an exact rational, \<open>NaN\<close> or an infinity (\<open>JInf False\<close> is
  \<^verbatim>\<open>Infinity\<close>, \<open>JInf True\<close> is \<^verbatim>\<open>-Infinity\<close>): the rounding, the limited range
  and the negative zero of IEEE doubles are outside this model.
\<close>

datatype jsval =
    JUndefined
  | JNull
  | JBool bool
  | JNum rat
  | JNaN
  | JInf bool
  | JStr string
  | JArr "jsval list"
  | JObj "(string \<times> jsval) list"

type_synonym obj = "(string \<times> jsval) list"

text \<open>
  Reading \<^verbatim>\<open>o.k\<close> on an object: a missing property reads as \<^verbatim>\<open>undefined\<close>. This is
  the reading of an own property; the handler reads only names that no object inherits
  (\<^verbatim>\<open>type\<close>, \<^verbatim>\<open>conid\<close>, \<^verbatim>\<open>last\<close>, ...). The one read under a computed name,
  in \<^verbatim>\<open>getMapping\<close>, is modelled apart.
\<close>

definition field :: "obj \<Rightarrow> string \<Rightarrow> jsval" where
  "field ob k = (case map_of ob k of None \<Rightarrow> JUndefined | Some v \<Rightarrow> v)"

text \<open>
  \<^verbatim>\<open>{...o, k: v}\<close>: an existing property keeps its place and takes the new value,
  a new one is appended.
\<close>

definition with_prop :: "string \<Rightarrow> jsval \<Rightarrow> obj \<Rightarrow> obj" where
  "with_prop k v ob = AList.update k v ob"

text \<open>The truthiness test of \<^verbatim>\<open>if (v)\<close>, \<^verbatim>\<open>v ? a : b\<close> and \<^verbatim>\<open>v || d\<close>.\<close>

fun truthy :: "jsval \<Rightarrow> bool" where
  "truthy JUndefined = False"
| "truthy JNull = False"
| "truthy (JBool b) = b"
| "truthy (JNum q) = (q \<noteq> 0)"
| "truthy JNaN = False"
| "truthy (JInf s) = True"
| "truthy (JStr s) = (s \<noteq> [])"
| "truthy (JArr xs) = True"
| "truthy (JObj ps) = True"

text \<open>\<^verbatim>\<open>a ?? b\<close>: the right operand only when the left one is null or undefined.\<close>

definition nullish_or :: "jsval \<Rightarrow> jsval \<Rightarrow> jsval" where
  "nullish_or a b = (if a = JUndefined \<or> a = JNull then b else a)"

text \<open>
  \<^verbatim>\<open>a === b\<close>. Arrays and objects are compared by identity; the handler only ever
  compares the property of a stored record with the property of the message being
  handled, which are different objects, so such a comparison is false.
\<close>

fun strict_eq :: "jsval \<Rightarrow> jsval \<Rightarrow> bool" where
  "strict_eq JUndefined b = (b = JUndefined)"
| "strict_eq JNull b = (b = JNull)"
| "strict_eq (JBool x) b = (b = JBool x)"
| "strict_eq (JNum x) b = (b = JNum x)"
| "strict_eq JNaN b = False"
| "strict_eq (JInf s) b = (b = JInf s)"
| "strict_eq (JStr s) b = (b = JStr s)"
| "strict_eq (JArr xs) b = False"
| "strict_eq (JObj ps) b = False"

text \<open>
  What the model takes from the language runtime, as parameters. \<open>to_key\<close> is the
  conversion of a value to a property key, used by a computed key \<^verbatim>\<open>[data.conid]\<close>
  and by \<^verbatim>\<open>conidMapping[conid]\<close>. \<open>to_num\<close> is the conversion to a number of a string,
  an array or an object (it parses their text: \<^verbatim>\<open>'2'\<close> is 2, \<^verbatim>\<open>[]\<close> is 0); its
  result is a number, \<open>NaN\<close> or an infinity. Both are total here: the type error that
  the runtime raises for an object whose own \<^verbatim>\<open>toString\<close> property hides the
  inherited one is outside this model, as such a value is outside the message contract,
  where an instrument id is a number or a string and a price is a number.
\<close>

record runtime =
  to_key :: "jsval \<Rightarrow> string"
  to_num :: "jsval \<Rightarrow> jsval"

text \<open>The conversion of an operand of \<^verbatim>\<open>-\<close>, \<^verbatim>\<open>/\<close> or \<^verbatim>\<open>*\<close> to a number.\<close>

fun to_number :: "runtime \<Rightarrow> jsval \<Rightarrow> jsval" where
  "to_number h JUndefined = JNaN"
| "to_number h JNull = JNum 0"
| "to_number h (JBool b) = JNum (if b then 1 else 0)"
| "to_number h (JNum q) = JNum q"
| "to_number h JNaN = JNaN"
| "to_number h (JInf s) = JInf s"
| "to_number h (JStr s) = to_num h (JStr s)"
| "to_number h (JArr xs) = to_num h (JArr xs)"
| "to_number h (JObj ps) = to_num h (JObj ps)"

text \<open>
  The three operators on numbers. \<open>NaN\<close> as an operand gives \<open>NaN\<close>; the cases with an
  infinity or a zero divisor follow IEEE arithmetic, with every zero taken as positive.
\<close>

definition num_sub :: "jsval \<Rightarrow> jsval \<Rightarrow> jsval" where
  "num_sub a b =
     (case a of
        JNum x \<Rightarrow> (case b of JNum y \<Rightarrow> JNum (x - y) | JInf s \<Rightarrow> JInf (\<not> s) | _ \<Rightarrow> JNaN)
      | JInf r \<Rightarrow> (case b of JNum y \<Rightarrow> JInf r
                            | JInf s \<Rightarrow> (if r = s then JNaN else JInf r)
                            | _ \<Rightarrow> JNaN)
      | _ \<Rightarrow> JNaN)"

definition num_div :: "jsval \<Rightarrow> jsval \<Rightarrow> jsval" where
  "num_div a b =
     (case a of
        JNum x \<Rightarrow> (case b of
                      JNum y \<Rightarrow> (if y \<noteq> 0 then JNum (x / y)
                                 else if x = 0 then JNaN
                                 else JInf (x < 0))
                    | JInf s \<Rightarrow> JNum 0
                    | _ \<Rightarrow> JNaN)
      | JInf r \<Rightarrow> (case b of JNum y \<Rightarrow> JInf (r \<noteq> (y < 0)) | _ \<Rightarrow> JNaN)
      | _ \<Rightarrow> JNaN)"

definition num_mul :: "jsval \<Rightarrow> jsval \<Rightarrow> jsval" where
  "num_mul a b =
     (case a of
        JNum x \<Rightarrow> (case b of
                      JNum y \<Rightarrow> JNum (x * y)
                    | JInf s \<Rightarrow> (if x = 0 then JNaN else JInf (s \<noteq> (x < 0)))
                    | _ \<Rightarrow> JNaN)
      | JInf r \<Rightarrow> (case b of
                      JNum y \<Rightarrow> (if y = 0 then JNaN else JInf (r \<noteq> (y < 0)))
                    | JInf s \<Rightarrow> JInf (r \<noteq> s)
                    | _ \<Rightarrow> JNaN)
      | _ \<Rightarrow> JNaN)"

definition js_sub :: "runtime \<Rightarrow> jsval \<Rightarrow> jsval \<Rightarrow> jsval" where
  "js_sub h a b = num_sub (to_number h a) (to_number h b)"

definition js_div :: "runtime \<Rightarrow> jsval \<Rightarrow> jsval \<Rightarrow> jsval" where
  "js_div h a b = num_div (to_number h a) (to_number h b)"

definition js_mul :: "runtime \<Rightarrow> jsval \<Rightarrow> jsval \<Rightarrow> jsval" where
  "js_mul h a b = num_mul (to_number h a) (to_number h b)"

section \<open>Session state and the message handler\<close>

text \<open>
  The component state behind \<^verbatim>\<open>useState\<close>: three ledgers (newest first), two quote
  overlays and the directory (objects used as dictionaries, keyed by the property key
  of the conid), and the statistics snapshot.
\<close>

record session =
  trades :: "obj list"
  prints :: "obj list"
  quotes :: obj
  ulQuotes :: obj
  conidMapping :: obj
  stats :: jsval
  autoTrades :: "obj list"

definition initial_session :: session where
  "initial_session =
     \<lparr>trades = [], prints = [], quotes = [], ulQuotes = [], conidMapping = [],
      stats = JNull, autoTrades = []\<rparr>"

text \<open>The state updater \<^verbatim>\<open>(prev) => [record, ...prev].slice(0, cap)\<close>.\<close>

definition push :: "nat \<Rightarrow> 'a \<Rightarrow> 'a list \<Rightarrow> 'a list" where
  "push cap record prev = take cap (record # prev)"

text \<open>
  The record built from a CALL or PUT message; \<open>now\<close> is the reading of
  \<^verbatim>\<open>Date.now()\<close>.
\<close>

definition enriched :: "int \<Rightarrow> obj \<Rightarrow> obj" where
  "enriched now d =
     with_prop ''priceChangePct'' (JNum 0)
       (with_prop ''priceChange'' (JNum 0)
         (with_prop ''currentPrice'' (field d ''optionPrice'')
           (with_prop ''initialPrice'' (field d ''optionPrice'')
             (with_prop ''receivedAt'' (JNum (of_int now)) d))))"

text \<open>
  The callback mapped over the trade ledger and over the auto-trade ledger when a
  LIVE_QUOTE message \<open>d\<close> arrives (the source writes it out twice, identically).
\<close>

definition apply_quote :: "runtime \<Rightarrow> obj \<Rightarrow> obj \<Rightarrow> obj" where
  "apply_quote h d t =
     (if \<not> strict_eq (field t ''conid'') (field d ''conid'') then t
      else
        let last = nullish_or (nullish_or (field d ''last'') (field t ''currentPrice''))
                     (field t ''optionPrice'');
            priceChange = js_sub h last (field t ''initialPrice'');
            priceChangePct =
              (if truthy (field t ''initialPrice'')
               then js_mul h (js_div h priceChange (field t ''initialPrice'')) (JNum 100)
               else JNum 0)
        in with_prop ''priceChangePct'' priceChangePct
             (with_prop ''priceChange'' priceChange
               (with_prop ''currentPrice'' last t)))"

text \<open>
  The \<^verbatim>\<open>switch (data.type)\<close> for a message that is an object. A computed key
  \<^verbatim>\<open>[data.conid]\<close> goes through the runtime's conversion of a value to a property key.
\<close>

definition dispatch :: "runtime \<Rightarrow> int \<Rightarrow> session \<Rightarrow> obj \<Rightarrow> session" where
  "dispatch h now st d =
     (let ty = field d ''type'' in
      if ty = JStr ''CONID_MAPPING'' then
        st\<lparr>conidMapping :=
             with_prop (to_key h (field d ''conid'')) (field d ''mapping'') (conidMapping st)\<rparr>
      else if ty = JStr ''CALL'' \<or> ty = JStr ''PUT'' then
        (let e = enriched now d;
             st1 = st\<lparr>trades := push 200 e (trades st)\<rparr>
         in if truthy (field d ''isAutoTrade'')
            then st1\<lparr>autoTrades := push 50 e (autoTrades st1)\<rparr>
            else st1)
      else if ty = JStr ''PRINT'' then
        st\<lparr>prints := push 200 d (prints st)\<rparr>
      else if ty = JStr ''LIVE_QUOTE'' then
        st\<lparr>quotes := with_prop (to_key h (field d ''conid'')) (JObj d) (quotes st),
           trades := map (apply_quote h d) (trades st),
           autoTrades := map (apply_quote h d) (autoTrades st)\<rparr>
      else if ty = JStr ''UL_LIVE_QUOTE'' then
        st\<lparr>ulQuotes := with_prop (to_key h (field d ''conid'')) (JObj d) (ulQuotes st)\<rparr>
      else if ty = JStr ''TRADING_STATS'' then
        st\<lparr>stats := field d ''stats''\<rparr>
      else st)"

text \<open>
  An inbound message: the outcome of \<^verbatim>\<open>JSON.parse(event.data)\<close>, which either throws
  or yields a value, and the clock reading at its arrival.
\<close>

datatype parsed = Undecodable | Decoded jsval

datatype error = SyntaxError | TypeError

record message =
  payload :: parsed
  clock :: int

text \<open>
  \<^verbatim>\<open>ws.onmessage\<close>. A thrown exception is the \<open>Inl\<close> result: the parse error of an
  undecodable payload, or the type error of reading \<^verbatim>\<open>.type\<close> from \<^verbatim>\<open>null\<close>. A
  decoded value that is not an object has no \<^verbatim>\<open>type\<close> and takes the default arm.
\<close>

definition onmessage :: "runtime \<Rightarrow> session \<Rightarrow> message \<Rightarrow> error + session" where
  "onmessage h st m =
     (case payload m of
        Undecodable \<Rightarrow> Inl SyntaxError
      | Decoded v \<Rightarrow>
          (case v of
             JUndefined \<Rightarrow> Inl TypeError
           | JNull \<Rightarrow> Inl TypeError
           | JObj d \<Rightarrow> Inr (dispatch h (clock m) st d)
           | _ \<Rightarrow> Inr st))"

text \<open>
  The host delivers the messages of a connection one at a time. An exception that
  leaves a listener is reported by the host and ends that listener call only; no state
  updater has run by then, so the state is the one before the message.
\<close>

definition deliver :: "runtime \<Rightarrow> session \<Rightarrow> message \<Rightarrow> session" where
  "deliver h st m = (case onmessage h st m of Inl e \<Rightarrow> st | Inr st' \<Rightarrow> st')"

definition deliver_all :: "runtime \<Rightarrow> session \<Rightarrow> message list \<Rightarrow> session" where
  "deliver_all h st ms = foldl (deliver h) st ms"

definition within_caps :: "session \<Rightarrow> bool" where
  "within_caps st =
     (length (trades st) \<le> 200 \<and> length (prints st) \<le> 200 \<and> length (autoTrades st) \<le> 50)"

section \<open>The directory lookup\<close>

text \<open>
  \<^verbatim>\<open>getMapping\<close> reads \<^verbatim>\<open>conidMapping[conid]\<close> and falls back to the placeholder when
  the value read is falsy. The directory is a plain object, so a key that is not one of
  its own properties is looked up in \<^verbatim>\<open>Object.prototype\<close>, whose members (eleven
  functions and the \<^verbatim>\<open>__proto__\<close> accessor, which yields the prototype object) are all
  truthy. The result is therefore a JSON value, or the inherited member of that name.
\<close>

definition object_prototype :: "string list" where
  "object_prototype =
     [''constructor'', ''__defineGetter__'', ''__defineSetter__'', ''hasOwnProperty'',
      ''__lookupGetter__'', ''__lookupSetter__'', ''isPrototypeOf'', ''propertyIsEnumerable'',
      ''toString'', ''valueOf'', ''__proto__'', ''toLocaleString'']"

datatype looked_up = Entry jsval | Inherited string

definition placeholder :: jsval where
  "placeholder = JObj [(''symbol'', JStr ''Unknown''), (''type'', JStr ''OPT'')]"

definition getMapping :: "runtime \<Rightarrow> obj \<Rightarrow> jsval \<Rightarrow> looked_up" where
  "getMapping h dir conid =
     (let k = to_key h conid in
      case map_of dir k of
        Some v \<Rightarrow> Entry (if truthy v then v else placeholder)
      | None \<Rightarrow> (if k \<in> set object_prototype then Inherited k else Entry placeholder))"

section \<open>Connection lifecycle\<close>

text \<open>
  What the connection code touches: the \<^verbatim>\<open>connected\<close> flag, the sockets created so
  far with the ready state the host keeps for each (a socket is named by its position),
  the \<^verbatim>\<open>wsRef\<close> cell, the delays of the pending \<^verbatim>\<open>setTimeout(connectWebSocket, _)\<close>
  calls, and the frames sent.
\<close>

datatype ready = CONNECTING | OPEN | CLOSING | CLOSED

record manager =
  connected :: bool
  sockets :: "ready list"
  wsRef :: "nat option"
  timers :: "nat list"
  sent :: "(nat \<times> jsval) list"

definition initial_manager :: manager where
  "initial_manager = \<lparr>connected = False, sockets = [], wsRef = None, timers = [], sent = []\<rparr>"

definition subscription :: jsval where
  "subscription =
     JObj [(''action'', JStr ''subscribe''),
           (''futuresSymbols'', JArr [JStr ''/ES'', JStr ''/NQ'']),
           (''equitySymbols'', JArr [JStr ''SPY'', JStr ''QQQ'', JStr ''AAPL'', JStr ''TSLA''])]"

text \<open>\<^verbatim>\<open>connectWebSocket\<close>: a new socket, remembered in \<^verbatim>\<open>wsRef\<close>.\<close>

definition connectWebSocket :: "manager \<Rightarrow> manager" where
  "connectWebSocket m = m\<lparr>sockets := sockets m @ [CONNECTING], wsRef := Some (length (sockets m))\<rparr>"

text \<open>The three listeners of socket \<open>i\<close>.\<close>

definition onopen :: "nat \<Rightarrow> manager \<Rightarrow> manager" where
  "onopen i m = m\<lparr>connected := True, sent := sent m @ [(i, subscription)]\<rparr>"

definition onclose :: "manager \<Rightarrow> manager" where
  "onclose m = m\<lparr>connected := False, timers := timers m @ [3000]\<rparr>"

definition onerror :: "manager \<Rightarrow> manager" where
  "onerror m = m\<lparr>connected := False\<rparr>"

text \<open>
  The host's \<^verbatim>\<open>WebSocket.close()\<close>: nothing on a socket that is closing or closed,
  otherwise the socket starts closing and its close event follows later.
\<close>

definition ws_close :: "nat \<Rightarrow> manager \<Rightarrow> manager" where
  "ws_close i m =
     (if i < length (sockets m) \<and> (sockets m ! i = CONNECTING \<or> sockets m ! i = OPEN)
      then m\<lparr>sockets := (sockets m)[i := CLOSING]\<rparr>
      else m)"

text \<open>The effect's cleanup function, run when the component goes away.\<close>

definition cleanup :: "manager \<Rightarrow> manager" where
  "cleanup m = (case wsRef m of None \<Rightarrow> m | Some i \<Rightarrow> ws_close i m)"

text \<open>
  What the host can do to the component: mount it (the effect body calls
  \<^verbatim>\<open>connectWebSocket\<close>), unmount it, open a connecting socket, end a socket that is
  not closed yet, and fire the pending timer at a position. A socket ends in one of two
  ways. \<open>SocketClose\<close> is a close without error: the socket becomes closed and its close
  event is fired. \<open>SocketFail\<close> is a connection error: the host never fires an error
  event alone; in one task it makes the socket closed, fires the error event and then
  the close event.
\<close>

datatype host_event =
    Mount
  | Unmount
  | SocketOpen nat
  | SocketFail nat
  | SocketClose nat
  | TimerFires nat

definition drop_at :: "nat \<Rightarrow> 'a list \<Rightarrow> 'a list" where
  "drop_at k xs = take k xs @ drop (Suc k) xs"

fun host_step :: "manager \<Rightarrow> host_event \<Rightarrow> manager" where
  "host_step m Mount = connectWebSocket m"
| "host_step m Unmount = cleanup m"
| "host_step m (SocketOpen i) =
     (if i < length (sockets m) \<and> sockets m ! i = CONNECTING
      then onopen i (m\<lparr>sockets := (sockets m)[i := OPEN]\<rparr>)
      else m)"
| "host_step m (SocketFail i) =
     (if i < length (sockets m) \<and> sockets m ! i \<noteq> CLOSED
      then onclose (onerror (m\<lparr>sockets := (sockets m)[i := CLOSED]\<rparr>))
      else m)"
| "host_step m (SocketClose i) =
     (if i < length (sockets m) \<and> sockets m ! i \<noteq> CLOSED
      then onclose (m\<lparr>sockets := (sockets m)[i := CLOSED]\<rparr>)
      else m)"
| "host_step m (TimerFires k) =
     (if k < length (timers m)
      then connectWebSocket (m\<lparr>timers := drop_at k (timers m)\<rparr>)
      else m)"

definition host_run :: "manager \<Rightarrow> host_event list \<Rightarrow> manager" where
  "host_run m evs = foldl host_step m evs"

text \<open>
  The events of \<open>n\<close> rounds of losing the connection and trying again, counted from
  round \<open>k\<close>: the socket of the round ends (without error in an even round, with an
  error in an odd one) and the timer set by its close event fires.
\<close>

fun retry_rounds :: "nat \<Rightarrow> nat \<Rightarrow> host_event list" where
  "retry_rounds k 0 = []"
| "retry_rounds k (Suc n) =
     [if even k then SocketClose k else SocketFail k, TimerFires 0] @ retry_rounds (Suc k) n"

section \<open>Values for the closed examples\<close>

text \<open>
  A runtime for the closed examples below. Its key conversion is the runtime's on
  strings (a string is its own key); the examples whose outcome depends on a key use
  string conids. Its number conversion is never consulted there: every price of the
  examples is a number.
\<close>

definition string_key :: "jsval \<Rightarrow> string" where
  "string_key v = (case v of JStr s \<Rightarrow> s | _ \<Rightarrow> [])"

definition example_runtime :: runtime where
  "example_runtime = \<lparr>to_key = string_key, to_num = (\<lambda>v. JNaN)\<rparr>"







section \<open>Properties of the ledgers\<close>

lemma length_push: "length (push cap r prev) \<le> cap"
  by (simp add: push_def)

lemma field_with_prop: "field (with_prop k v ob) k' = (if k' = k then v else field ob k')"
  by (simp add: field_def with_prop_def update_conv')

lemma onmessage_object:
  "onmessage h st \<lparr>payload = Decoded (JObj d), clock = now\<rparr> = Inr (dispatch h now st d)"
  by (simp add: onmessage_def)

lemma within_caps_dispatch: "within_caps st \<Longrightarrow> within_caps (dispatch h now st d)"
  by (simp add: within_caps_def dispatch_def Let_def length_push)

lemma within_caps_deliver: "within_caps st \<Longrightarrow> within_caps (deliver h st m)"
  by (auto simp: deliver_def onmessage_def within_caps_dispatch
           split: parsed.splits jsval.splits)

lemma within_caps_deliver_all: "within_caps st \<Longrightarrow> within_caps (deliver_all h st ms)"
  unfolding deliver_all_def
  by (induction ms arbitrary: st) (simp_all add: within_caps_deliver)

lemma within_caps_initial: "within_caps initial_session"
  by (simp add: within_caps_def initial_session_def)

text \<open>
  C1. Starting from the empty session, after every message of every inbound sequence
  (that is, after every prefix \<open>take n ms\<close> of the sequence) the trade ledger and the
  print ledger hold at most 200 records and the auto-trade ledger at most 50.
\<close>

theorem ledgers_bounded:
  "length (trades (deliver_all h initial_session (take n ms))) \<le> 200 \<and>
   length (prints (deliver_all h initial_session (take n ms))) \<le> 200 \<and>
   length (autoTrades (deliver_all h initial_session (take n ms))) \<le> 50"
  using within_caps_deliver_all [OF within_caps_initial, of h "take n ms"]
  by (simp add: within_caps_def)

lemma dispatch_print:
  "field d ''type'' = JStr ''PRINT'' \<Longrightarrow>
   dispatch h now st d = st\<lparr>prints := push 200 d (prints st)\<rparr>"
  by (simp add: dispatch_def)

text \<open>
  C6. For a ledger of capacity \<open>cap > 0\<close>, a push puts the record at index 0 and keeps
  the first \<open>cap - 1\<close> earlier records behind it in their order; the result never
  exceeds the capacity; below capacity nothing is lost, and at capacity exactly the
  last (oldest) record is dropped. The push is a total function: it has no failing case.
  A PRINT message is pushed this way to the print ledger, with capacity 200 (the pushes
  of a CALL or PUT message are in C7).
\<close>

theorem push_newest_first_evicts_oldest:
  assumes "0 < cap"
  shows "push cap r prev ! 0 = r \<and>
         push cap r prev = r # take (cap - 1) prev \<and>
         length (push cap r prev) \<le> cap \<and>
         (length prev < cap \<longrightarrow> push cap r prev = r # prev) \<and>
         (length prev = cap \<longrightarrow> push cap r prev = r # butlast prev) \<and>
         (field d ''type'' = JStr ''PRINT'' \<longrightarrow>
            onmessage h st \<lparr>payload = Decoded (JObj d), clock = now\<rparr>
              = Inr (st\<lparr>prints := push 200 d (prints st)\<rparr>))"
proof -
  obtain c where c: "cap = Suc c" using assms by (cases cap) auto
  have "push cap r prev = r # take c prev"
    by (simp add: push_def c)
  moreover have "length prev = cap \<longrightarrow> take c prev = butlast prev"
    by (simp add: c butlast_conv_take)
  ultimately show ?thesis
    by (simp add: c onmessage_object dispatch_print)
qed

theorem push_newest_first_evicts_oldest_witness:
  "push 2 (3::nat) [2, 1] ! 0 = 3 \<and> push 2 (3::nat) [2, 1] = [3, 2] \<and>
   push 2 (4::nat) [3] = [4, 3] \<and>
   field [(''type'', JStr ''PRINT''), (''conid'', JNum 5)] ''type'' = JStr ''PRINT'' \<and>
   onmessage example_runtime initial_session
     \<lparr>payload = Decoded (JObj [(''type'', JStr ''PRINT''), (''conid'', JNum 5)]), clock = 0\<rparr>
     = Inr (initial_session\<lparr>prints := [[(''type'', JStr ''PRINT''), (''conid'', JNum 5)]]\<rparr>)"
  using push_newest_first_evicts_oldest [of 2 "3::nat" "[2, 1]"]
        push_newest_first_evicts_oldest [of 2 "4::nat" "[3]"]
        push_newest_first_evicts_oldest [of 200 "[(''type'', JStr ''PRINT''), (''conid'', JNum 5)]"
          "[]" "[(''type'', JStr ''PRINT''), (''conid'', JNum 5)]" example_runtime
          initial_session 0]
  by (simp add: field_def initial_session_def)

lemma dispatch_trade:
  assumes "field d ''type'' = JStr ''CALL'' \<or> field d ''type'' = JStr ''PUT''"
  shows "trades (dispatch h now st d) = push 200 (enriched now d) (trades st)"
    and "autoTrades (dispatch h now st d) =
           (if truthy (field d ''isAutoTrade'') then push 50 (enriched now d) (autoTrades st)
            else autoTrades st)"
  using assms by (auto simp: dispatch_def Let_def)

lemma enriched_fields:
  "field (enriched now d) ''currentPrice'' = field d ''optionPrice''"
  "field (enriched now d) ''initialPrice'' = field d ''optionPrice''"
  "field (enriched now d) ''priceChange'' = JNum 0"
  "field (enriched now d) ''priceChangePct'' = JNum 0"
  by (simp_all add: enriched_def field_with_prop)

text \<open>
  C7. A CALL or PUT message is handled without an exception; the record put at the head
  of the trade ledger has \<open>currentPrice\<close> and \<open>initialPrice\<close> equal to the message's
  \<open>optionPrice\<close> and \<open>priceChange\<close> and \<open>priceChangePct\<close> equal to 0; the same record is
  put at the head of the auto-trade ledger when the message's \<open>isAutoTrade\<close> is truthy,
  and the auto-trade ledger is left as it was when it is not.
\<close>

theorem trade_record_initialised:
  assumes "field d ''type'' = JStr ''CALL'' \<or> field d ''type'' = JStr ''PUT''"
  shows "onmessage h st \<lparr>payload = Decoded (JObj d), clock = now\<rparr>
           = Inr (dispatch h now st d) \<and>
         trades (dispatch h now st d) = enriched now d # take 199 (trades st) \<and>
         field (enriched now d) ''currentPrice'' = field d ''optionPrice'' \<and>
         field (enriched now d) ''initialPrice'' = field d ''optionPrice'' \<and>
         field (enriched now d) ''priceChange'' = JNum 0 \<and>
         field (enriched now d) ''priceChangePct'' = JNum 0 \<and>
         (truthy (field d ''isAutoTrade'') \<longrightarrow>
            autoTrades (dispatch h now st d) = enriched now d # take 49 (autoTrades st)) \<and>
         (\<not> truthy (field d ''isAutoTrade'') \<longrightarrow>
            autoTrades (dispatch h now st d) = autoTrades st)"
  using assms
  by (simp add: onmessage_object dispatch_trade enriched_fields push_def)

theorem trade_record_initialised_witness:
  "field [(''type'', JStr ''CALL''), (''conid'', JNum 100), (''optionPrice'', JNum (3/2)),
          (''isAutoTrade'', JBool True)] ''type'' = JStr ''CALL'' \<and>
   trades (dispatch example_runtime 7 initial_session
     [(''type'', JStr ''CALL''), (''conid'', JNum 100), (''optionPrice'', JNum (3/2)),
      (''isAutoTrade'', JBool True)])
   = [[(''type'', JStr ''CALL''), (''conid'', JNum 100), (''optionPrice'', JNum (3/2)),
       (''isAutoTrade'', JBool True), (''receivedAt'', JNum 7), (''initialPrice'', JNum (3/2)),
       (''currentPrice'', JNum (3/2)), (''priceChange'', JNum 0), (''priceChangePct'', JNum 0)]] \<and>
   autoTrades (dispatch example_runtime 7 initial_session
     [(''type'', JStr ''CALL''), (''conid'', JNum 100), (''optionPrice'', JNum (3/2)),
      (''isAutoTrade'', JBool True)])
   = [[(''type'', JStr ''CALL''), (''conid'', JNum 100), (''optionPrice'', JNum (3/2)),
       (''isAutoTrade'', JBool True), (''receivedAt'', JNum 7), (''initialPrice'', JNum (3/2)),
       (''currentPrice'', JNum (3/2)), (''priceChange'', JNum 0), (''priceChangePct'', JNum 0)]] \<and>
   field [(''type'', JStr ''PUT''), (''conid'', JNum 100), (''optionPrice'', JNum 4)] ''type''
     = JStr ''PUT'' \<and>
   trades (dispatch example_runtime 8 initial_session
     [(''type'', JStr ''PUT''), (''conid'', JNum 100), (''optionPrice'', JNum 4)])
   = [[(''type'', JStr ''PUT''), (''conid'', JNum 100), (''optionPrice'', JNum 4),
       (''receivedAt'', JNum 8), (''initialPrice'', JNum 4), (''currentPrice'', JNum 4),
       (''priceChange'', JNum 0), (''priceChangePct'', JNum 0)]] \<and>
   autoTrades (dispatch example_runtime 8 initial_session
     [(''type'', JStr ''PUT''), (''conid'', JNum 100), (''optionPrice'', JNum 4)]) = []"
  using trade_record_initialised [of "[(''type'', JStr ''CALL''), (''conid'', JNum 100),
          (''optionPrice'', JNum (3/2)), (''isAutoTrade'', JBool True)]"
          example_runtime initial_session 7]
        trade_record_initialised [of "[(''type'', JStr ''PUT''), (''conid'', JNum 100),
          (''optionPrice'', JNum 4)]" example_runtime initial_session 8]
  by (simp add: field_def enriched_def with_prop_def initial_session_def)

section \<open>Properties of the enrichment\<close>

lemma with_prop_same: "map_of ob k = Some v \<Longrightarrow> with_prop k v ob = ob"
  by (simp add: with_prop_def update_triv)

lemma map_of_with_prop: "map_of (with_prop k v ob) = (map_of ob)(k \<mapsto> v)"
  by (simp add: with_prop_def update_conv')

lemma apply_quote_other:
  "\<not> strict_eq (field t ''conid'') (field d ''conid'') \<Longrightarrow> apply_quote h d t = t"
  by (simp add: apply_quote_def)

lemma apply_quote_match:
  "strict_eq (field t ''conid'') (field d ''conid'') \<Longrightarrow>
   apply_quote h d t =
     with_prop ''priceChangePct''
       (if truthy (field t ''initialPrice'')
        then js_mul h (js_div h (js_sub h (nullish_or (nullish_or (field d ''last'')
                (field t ''currentPrice'')) (field t ''optionPrice'')) (field t ''initialPrice''))
                (field t ''initialPrice''))
               (JNum 100)
        else JNum 0)
       (with_prop ''priceChange''
          (js_sub h (nullish_or (nullish_or (field d ''last'') (field t ''currentPrice''))
                (field t ''optionPrice'')) (field t ''initialPrice''))
          (with_prop ''currentPrice''
             (nullish_or (nullish_or (field d ''last'') (field t ''currentPrice''))
                (field t ''optionPrice'')) t))"
  by (simp add: apply_quote_def Let_def)

lemma apply_quote_frame:
  "k \<noteq> ''currentPrice'' \<Longrightarrow> k \<noteq> ''priceChange'' \<Longrightarrow> k \<noteq> ''priceChangePct'' \<Longrightarrow>
   field (apply_quote h d t) k = field t k"
  by (simp add: apply_quote_def Let_def field_with_prop)

lemma dispatch_quote:
  assumes "field d ''type'' = JStr ''LIVE_QUOTE''"
  shows "dispatch h now st d =
           st\<lparr>quotes := with_prop (to_key h (field d ''conid'')) (JObj d) (quotes st),
              trades := map (apply_quote h d) (trades st),
              autoTrades := map (apply_quote h d) (autoTrades st)\<rparr>"
  using assms by (simp add: dispatch_def)





text \<open>
  C9. Handling a LIVE_QUOTE message \<open>d\<close> leaves the print ledger as it was and keeps
  the length of the trade ledger and of the auto-trade ledger; position by position, a
  record whose conid is not strictly equal to the message's conid is the same record
  afterwards, and every record reads the same afterwards in every field other than
  \<open>currentPrice\<close>, \<open>priceChange\<close> and \<open>priceChangePct\<close>.
\<close>

theorem live_quote_frame:
  assumes ty: "field d ''type'' = JStr ''LIVE_QUOTE''"
    and st': "st' = dispatch h now st d"
  shows "prints st' = prints st \<and>
         length (trades st') = length (trades st) \<and>
         length (autoTrades st') = length (autoTrades st) \<and>
         (\<forall>i < length (trades st).
            (\<not> strict_eq (field (trades st ! i) ''conid'') (field d ''conid'') \<longrightarrow>
               trades st' ! i = trades st ! i) \<and>
            (\<forall>k. k \<notin> {''currentPrice'', ''priceChange'', ''priceChangePct''} \<longrightarrow>
               field (trades st' ! i) k = field (trades st ! i) k)) \<and>
         (\<forall>i < length (autoTrades st).
            (\<not> strict_eq (field (autoTrades st ! i) ''conid'') (field d ''conid'') \<longrightarrow>
               autoTrades st' ! i = autoTrades st ! i) \<and>
            (\<forall>k. k \<notin> {''currentPrice'', ''priceChange'', ''priceChangePct''} \<longrightarrow>
               field (autoTrades st' ! i) k = field (autoTrades st ! i) k))"
  by (simp add: st' dispatch_quote [OF ty] apply_quote_other apply_quote_frame)

theorem live_quote_frame_witness:
  "field [(''type'', JStr ''LIVE_QUOTE''), (''conid'', JStr ''100''), (''last'', JNum 2)] ''type''
     = JStr ''LIVE_QUOTE'' \<and>
   prints (dispatch example_runtime 0
      (initial_session\<lparr>trades := [[(''conid'', JStr ''200''), (''initialPrice'', JNum 1)],
                                   [(''conid'', JStr ''100''), (''initialPrice'', JNum 1)]],
                        prints := [[(''conid'', JStr ''100'')]],
                        autoTrades := [[(''conid'', JStr ''200''), (''initialPrice'', JNum 1)]]\<rparr>)
      [(''type'', JStr ''LIVE_QUOTE''), (''conid'', JStr ''100''), (''last'', JNum 2)])
     = [[(''conid'', JStr ''100'')]] \<and>
   trades (dispatch example_runtime 0
      (initial_session\<lparr>trades := [[(''conid'', JStr ''200''), (''initialPrice'', JNum 1)],
                                   [(''conid'', JStr ''100''), (''initialPrice'', JNum 1)]],
                        prints := [[(''conid'', JStr ''100'')]],
                        autoTrades := [[(''conid'', JStr ''200''), (''initialPrice'', JNum 1)]]\<rparr>)
      [(''type'', JStr ''LIVE_QUOTE''), (''conid'', JStr ''100''), (''last'', JNum 2)]) ! 0
     = [(''conid'', JStr ''200''), (''initialPrice'', JNum 1)] \<and>
   field (trades (dispatch example_runtime 0
      (initial_session\<lparr>trades := [[(''conid'', JStr ''200''), (''initialPrice'', JNum 1)],
                                   [(''conid'', JStr ''100''), (''initialPrice'', JNum 1)]],
                        prints := [[(''conid'', JStr ''100'')]],
                        autoTrades := [[(''conid'', JStr ''200''), (''initialPrice'', JNum 1)]]\<rparr>)
      [(''type'', JStr ''LIVE_QUOTE''), (''conid'', JStr ''100''), (''last'', JNum 2)]) ! 1)
      ''initialPrice'' = JNum 1 \<and>
   autoTrades (dispatch example_runtime 0
      (initial_session\<lparr>trades := [[(''conid'', JStr ''200''), (''initialPrice'', JNum 1)],
                                   [(''conid'', JStr ''100''), (''initialPrice'', JNum 1)]],
                        prints := [[(''conid'', JStr ''100'')]],
                        autoTrades := [[(''conid'', JStr ''200''), (''initialPrice'', JNum 1)]]\<rparr>)
      [(''type'', JStr ''LIVE_QUOTE''), (''conid'', JStr ''100''), (''last'', JNum 2)]) ! 0
     = [(''conid'', JStr ''200''), (''initialPrice'', JNum 1)]"
  using live_quote_frame
    [where d = "[(''type'', JStr ''LIVE_QUOTE''), (''conid'', JStr ''100''), (''last'', JNum 2)]"
       and h = example_runtime and now = 0
       and st = "initial_session\<lparr>trades := [[(''conid'', JStr ''200''), (''initialPrice'', JNum 1)],
                                   [(''conid'', JStr ''100''), (''initialPrice'', JNum 1)]],
                        prints := [[(''conid'', JStr ''100'')]],
                        autoTrades := [[(''conid'', JStr ''200''), (''initialPrice'', JNum 1)]]\<rparr>",
     OF _ refl]
  by (simp add: field_def initial_session_def)

lemma nullish_or_again:
  "nullish_or (nullish_or a (nullish_or (nullish_or a b) c)) c = nullish_or (nullish_or a b) c"
  by (simp add: nullish_or_def)

lemma apply_quote_idem: "apply_quote h d (apply_quote h d t) = apply_quote h d t"
proof (cases "strict_eq (field t ''conid'') (field d ''conid'')")
  case False
  then show ?thesis by (simp add: apply_quote_other)
next
  case True
  define L where "L = nullish_or (nullish_or (field d ''last'') (field t ''currentPrice''))
                        (field t ''optionPrice'')"
  define C where "C = js_sub h L (field t ''initialPrice'')"
  define P where "P = (if truthy (field t ''initialPrice'')
               then js_mul h (js_div h C (field t ''initialPrice'')) (JNum 100) else JNum 0)"
  define t' where
    "t' = with_prop ''priceChangePct'' P (with_prop ''priceChange'' C (with_prop ''currentPrice'' L t))"
  have t': "apply_quote h d t = t'"
    by (simp add: apply_quote_match [OF True] t'_def P_def C_def L_def)
  have f: "field t' ''conid'' = field t ''conid''" "field t' ''currentPrice'' = L"
    "field t' ''optionPrice'' = field t ''optionPrice''"
    "field t' ''initialPrice'' = field t ''initialPrice''"
    by (simp_all add: t'_def field_with_prop)
  have same': "strict_eq (field t' ''conid'') (field d ''conid'')"
    using True by (simp add: f)
  have L': "nullish_or (nullish_or (field d ''last'') L) (field t ''optionPrice'') = L"
    by (simp add: L_def nullish_or_again)
  have m: "map_of t' ''currentPrice'' = Some L" "map_of t' ''priceChange'' = Some C"
    "map_of t' ''priceChangePct'' = Some P"
    by (simp_all add: t'_def map_of_with_prop)
  have "apply_quote h d t' =
          with_prop ''priceChangePct'' P (with_prop ''priceChange'' C (with_prop ''currentPrice'' L t'))"
    by (simp add: apply_quote_match [OF same'] f L' P_def C_def)
  also have "\<dots> = t'"
    by (simp add: with_prop_same m)
  finally show ?thesis by (simp add: t')
qed

lemma with_prop_twice: "with_prop k v (with_prop k v ob) = with_prop k v ob"
  by (simp add: with_prop_same map_of_with_prop)

text \<open>
  C10. Handling the same LIVE_QUOTE message a second time, right after the first,
  changes nothing: the trade ledger and the auto-trade ledger (hence the
  \<open>currentPrice\<close>, \<open>priceChange\<close> and \<open>priceChangePct\<close> of each of their records), and
  indeed the whole session state, are the same after two deliveries as after one.
\<close>

theorem live_quote_idempotent:
  assumes ty: "field d ''type'' = JStr ''LIVE_QUOTE''"
    and once: "once = deliver h st \<lparr>payload = Decoded (JObj d), clock = ca\<rparr>"
    and twice: "twice = deliver h once \<lparr>payload = Decoded (JObj d), clock = cb\<rparr>"
  shows "trades twice = trades once \<and> autoTrades twice = autoTrades once \<and> twice = once"
  by (simp add: once twice deliver_def onmessage_object dispatch_quote [OF ty]
        apply_quote_idem with_prop_twice)

theorem live_quote_idempotent_witness:
  "field [(''type'', JStr ''LIVE_QUOTE''), (''conid'', JStr ''100'')] ''type'' = JStr ''LIVE_QUOTE'' \<and>
   trades (deliver example_runtime
      (deliver example_runtime
         (initial_session\<lparr>trades := [[(''conid'', JStr ''100''), (''optionPrice'', JNum 3)]]\<rparr>)
         \<lparr>payload = Decoded (JObj [(''type'', JStr ''LIVE_QUOTE''), (''conid'', JStr ''100'')]),
          clock = 1\<rparr>)
      \<lparr>payload = Decoded (JObj [(''type'', JStr ''LIVE_QUOTE''), (''conid'', JStr ''100'')]),
       clock = 2\<rparr>)
   = trades (deliver example_runtime
         (initial_session\<lparr>trades := [[(''conid'', JStr ''100''), (''optionPrice'', JNum 3)]]\<rparr>)
         \<lparr>payload = Decoded (JObj [(''type'', JStr ''LIVE_QUOTE''), (''conid'', JStr ''100'')]),
          clock = 1\<rparr>)"
  using live_quote_idempotent
    [where d = "[(''type'', JStr ''LIVE_QUOTE''), (''conid'', JStr ''100'')]"
       and h = example_runtime and ca = 1 and cb = 2
       and st = "initial_session\<lparr>trades := [[(''conid'', JStr ''100''), (''optionPrice'', JNum 3)]]\<rparr>",
     OF _ refl refl]
  by (simp add: field_def)

section \<open>Undecodable messages\<close>

lemma deliver_all_append:
  "deliver_all h st (xs @ ys) = deliver_all h (deliver_all h st xs) ys"
  by (simp add: deliver_all_def)

text \<open>
  C3. For an undecodable payload the handler stops at the parse, before any state
  update, with the parse error; the session state after its delivery is the state
  before it, and the messages delivered after it are handled from that state exactly as
  if the undecodable message had not arrived.
\<close>

theorem undecodable_dropped:
  "onmessage h st \<lparr>payload = Undecodable, clock = c\<rparr> = Inl SyntaxError \<and>
   deliver h st \<lparr>payload = Undecodable, clock = c\<rparr> = st \<and>
   deliver_all h st (before @ [\<lparr>payload = Undecodable, clock = c\<rparr>] @ after)
     = deliver_all h (deliver_all h st before) after"
  by (simp add: deliver_all_append) (simp add: deliver_all_def deliver_def onmessage_def)

section \<open>The directory\<close>

text \<open>
  C8 (amended). For a conid whose property key has no entry in the directory and is not
  the name of a member of \<^verbatim>\<open>Object.prototype\<close>, \<open>getMapping\<close> returns the placeholder
  \<^verbatim>\<open>{symbol: 'Unknown', type: 'OPT'}\<close>. It is a total function: it has no failing case.
\<close>

theorem getMapping_default:
  assumes "map_of dir (to_key h conid) = None"
    and "to_key h conid \<notin>
           {''constructor'', ''__defineGetter__'', ''__defineSetter__'', ''hasOwnProperty'',
            ''__lookupGetter__'', ''__lookupSetter__'', ''isPrototypeOf'',
            ''propertyIsEnumerable'', ''toString'', ''valueOf'', ''__proto__'',
            ''toLocaleString''}"
  shows "getMapping h dir conid
           = Entry (JObj [(''symbol'', JStr ''Unknown''), (''type'', JStr ''OPT'')])"
  using assms by (simp add: getMapping_def placeholder_def object_prototype_def)

theorem getMapping_default_witness:
  "map_of [(''7'', JObj [(''symbol'', JStr ''SPY'')])] (to_key example_runtime (JStr ''100''))
     = None \<and>
   getMapping example_runtime [(''7'', JObj [(''symbol'', JStr ''SPY'')])] (JStr ''100'')
     = Entry (JObj [(''symbol'', JStr ''Unknown''), (''type'', JStr ''OPT'')])"
  using getMapping_default [of "[(''7'', JObj [(''symbol'', JStr ''SPY'')])]" example_runtime
          "JStr ''100''"]
  by (simp add: example_runtime_def string_key_def)

text \<open>
  C8 as stated fails twice. Looked up in the empty directory, the conid \<^verbatim>\<open>"100"\<close> does
  not give \<^verbatim>\<open>{symbol: "Unknown", instrumentClass: "OPTION"}\<close>; and the conid
  \<^verbatim>\<open>"constructor"\<close>, absent from the directory too, gives the inherited member of
  that name and no placeholder at all.
\<close>

theorem getMapping_default_counterexample:
  "map_of [] (to_key example_runtime (JStr ''100'')) = None \<and>
   getMapping example_runtime [] (JStr ''100'')
     \<noteq> Entry (JObj [(''symbol'', JStr ''Unknown''), (''instrumentClass'', JStr ''OPTION'')]) \<and>
   map_of [] (to_key example_runtime (JStr ''constructor'')) = None \<and>
   getMapping example_runtime [] (JStr ''constructor'') = Inherited ''constructor''"
  by (simp add: getMapping_def placeholder_def object_prototype_def example_runtime_def
        string_key_def)

section \<open>Connection lifecycle: teardown and reconnection\<close>

text \<open>
  C4 does not hold of the code. Mounting, opening, unmounting, the close event of the
  socket closed by the cleanup, and the timer that this close event set: the run ends
  with a second socket, connecting, created after the teardown. And a reconnection
  timer pending at the teardown is still pending after it.
\<close>

theorem teardown_reconnects:
  "host_run initial_manager [Mount, SocketOpen 0, Unmount, SocketClose 0, TimerFires 0]
     = \<lparr>connected = False, sockets = [CLOSED, CONNECTING], wsRef = Some 1, timers = [],
        sent = [(0, subscription)]\<rparr> \<and>
   timers (host_run initial_manager [Mount, SocketClose 0]) = [3000] \<and>
   timers (host_run initial_manager [Mount, SocketClose 0, Unmount]) = [3000]"
  by (simp add: host_run_def initial_manager_def connectWebSocket_def onopen_def cleanup_def
        ws_close_def onclose_def drop_at_def)

lemma host_run_append: "host_run m (xs @ ys) = host_run (host_run m xs) ys"
  by (simp add: host_run_def)

lemma end_of_socket:
  assumes "i < length (sockets m)" and "sockets m ! i \<noteq> CLOSED"
    and "ev = SocketClose i \<or> ev = SocketFail i"
  shows "host_step m ev =
           m\<lparr>connected := False, sockets := (sockets m)[i := CLOSED],
             timers := timers m @ [3000]\<rparr>"
  using assms by (auto simp: onclose_def onerror_def)

lemma retry_round:
  "host_run \<lparr>connected = False, sockets = replicate k CLOSED @ [CONNECTING], wsRef = Some k,
             timers = [], sent = out\<rparr>
     [if even k then SocketClose k else SocketFail k, TimerFires 0]
   = \<lparr>connected = False, sockets = replicate (Suc k) CLOSED @ [CONNECTING], wsRef = Some (Suc k),
      timers = [], sent = out\<rparr>"
  by (simp add: host_run_def onclose_def onerror_def connectWebSocket_def drop_at_def
        nth_append list_update_append replicate_append_same)

lemma retry_rounds_run:
  "host_run \<lparr>connected = False, sockets = replicate k CLOSED @ [CONNECTING], wsRef = Some k,
             timers = [], sent = out\<rparr> (retry_rounds k n)
   = \<lparr>connected = False, sockets = replicate (k + n) CLOSED @ [CONNECTING], wsRef = Some (k + n),
      timers = [], sent = out\<rparr>"
proof (induction n arbitrary: k)
  case 0
  show ?case by (simp add: host_run_def)
next
  case (Suc n)
  let ?ev = "if even k then SocketClose k else SocketFail k"
  have "retry_rounds k (Suc n) = [?ev, TimerFires 0] @ retry_rounds (Suc k) n"
    by simp
  then have "host_run \<lparr>connected = False, sockets = replicate k CLOSED @ [CONNECTING],
                        wsRef = Some k, timers = [], sent = out\<rparr> (retry_rounds k (Suc n))
        = host_run (host_run \<lparr>connected = False, sockets = replicate k CLOSED @ [CONNECTING],
                               wsRef = Some k, timers = [], sent = out\<rparr> [?ev, TimerFires 0])
            (retry_rounds (Suc k) n)"
    by (simp only: host_run_append)
  also have "\<dots> = host_run \<lparr>connected = False,
                               sockets = replicate (Suc k) CLOSED @ [CONNECTING],
                               wsRef = Some (Suc k), timers = [], sent = out\<rparr>
                     (retry_rounds (Suc k) n)"
    by (simp only: retry_round)
  also have "\<dots> = \<lparr>connected = False, sockets = replicate (Suc k + n) CLOSED @ [CONNECTING],
                      wsRef = Some (Suc k + n), timers = [], sent = out\<rparr>"
    by (rule Suc.IH)
  finally show ?case by simp
qed

text \<open>
  C5. When a socket that is not closed yet ends, by a close without error or by a
  connection error (whose error event the host follows with the close event), the
  session is marked disconnected and exactly one timer of 3000 milliseconds is added to
  the pending ones, whatever happened before; the socket is closed then, so no further
  close or error of it adds another timer; and when that timer fires, exactly one new
  socket is created and no timer is left from it. There is no bound on the retries:
  after any number \<open>n\<close> of rounds of a connection ending and its timer firing, there is
  again a connecting socket, the \<open>n\<close>-th after the first.
\<close>

theorem close_or_error_schedules_one_reconnect:
  assumes "i < length (sockets m)" and "sockets m ! i \<noteq> CLOSED"
    and "ev = SocketClose i \<or> ev = SocketFail i"
  shows "connected (host_step m ev) = False \<and>
         timers (host_step m ev) = timers m @ [3000] \<and>
         sockets (host_step m ev) = (sockets m)[i := CLOSED] \<and>
         host_step (host_step m ev) (SocketClose i) = host_step m ev \<and>
         host_step (host_step m ev) (SocketFail i) = host_step m ev \<and>
         sockets (host_step (host_step m ev) (TimerFires (length (timers m))))
           = (sockets m)[i := CLOSED] @ [CONNECTING] \<and>
         timers (host_step (host_step m ev) (TimerFires (length (timers m)))) = timers m \<and>
         host_run (host_run initial_manager [Mount]) (retry_rounds 0 n)
           = \<lparr>connected = False, sockets = replicate n CLOSED @ [CONNECTING], wsRef = Some n,
              timers = [], sent = []\<rparr>"
proof -
  have e: "host_step m ev =
           m\<lparr>connected := False, sockets := (sockets m)[i := CLOSED],
             timers := timers m @ [3000]\<rparr>"
    using assms by (rule end_of_socket)
  have r: "host_run (host_run initial_manager [Mount]) (retry_rounds 0 n)
           = \<lparr>connected = False, sockets = replicate n CLOSED @ [CONNECTING], wsRef = Some n,
              timers = [], sent = []\<rparr>"
    using retry_rounds_run [of 0 "[]" n]
    by (simp add: host_run_def initial_manager_def connectWebSocket_def)
  show ?thesis
    unfolding e r using assms(1)
    by (simp add: connectWebSocket_def drop_at_def)
qed

theorem close_or_error_schedules_one_reconnect_witness:
  "0 < length (sockets (host_run initial_manager [Mount, SocketOpen 0])) \<and>
   sockets (host_run initial_manager [Mount, SocketOpen 0]) ! 0 \<noteq> CLOSED \<and>
   connected (host_run initial_manager [Mount, SocketOpen 0]) = True \<and>
   connected (host_step (host_run initial_manager [Mount, SocketOpen 0]) (SocketFail 0)) = False \<and>
   timers (host_step (host_run initial_manager [Mount, SocketOpen 0]) (SocketFail 0)) = [3000] \<and>
   connected (host_step (host_run initial_manager [Mount, SocketOpen 0]) (SocketClose 0)) = False \<and>
   timers (host_step (host_run initial_manager [Mount, SocketOpen 0]) (SocketClose 0)) = [3000] \<and>
   sockets (host_step (host_step (host_run initial_manager [Mount, SocketOpen 0]) (SocketClose 0))
              (TimerFires 0)) = [CLOSED, CONNECTING]"
  using close_or_error_schedules_one_reconnect
          [of 0 "host_run initial_manager [Mount, SocketOpen 0]" "SocketFail 0"]
        close_or_error_schedules_one_reconnect
          [of 0 "host_run initial_manager [Mount, SocketOpen 0]" "SocketClose 0"]
  by (simp add: host_run_def initial_manager_def connectWebSocket_def onopen_def)

end
